theory Spec2Isabelle
  imports Main
begin

section \<open>Data model\<close>

text \<open>
  The development embeds the per-item download orchestrator and the batch aggregators of
  \<^verbatim>\<open>deezspot/spotloader/__download__.py\<close> and the tag writer of
  \<^verbatim>\<open>deezspot/__taggers__.py\<close>.

  A path is kept as the pair (directory, file name) that \<^verbatim>\<open>os.path.dirname\<close> and
  \<^verbatim>\<open>os.path.join\<close> convert to and from. A metadata dictionary is an association list
  read with \<open>map_of\<close> (Python's \<^verbatim>\<open>dict.get\<close>).
\<close>

type_synonym path = "string \<times> string"

type_synonym metadata = "(string \<times> string) list"

text \<open>Every exception below is a subclass of Python's \<^verbatim>\<open>Exception\<close>.\<close>

datatype exn =
    TrackNotFound
  | FileNotFoundError string
  | KeyError string
  | IndexError
  | ValueError string
  | MaxRetriesReached int nat
  | Failure string

text \<open>
  What the tag library (mutagen) recognises in a file: \<open>Raw\<close> is the container as
  streamed, \<open>Unknown\<close> a file for which \<^verbatim>\<open>mutagen.File\<close> returns \<^verbatim>\<open>None\<close>, \<open>Corrupt\<close>
  a file on which it raises.
\<close>

datatype fkind = Raw | Ogg | Mp3 | Flac | Mp4 | Unknown | Corrupt

record afile =
  kind :: fkind
  tags :: metadata
  payload :: string

datatype status = Initializing | Progress | RealTime | Retrying | Skipped | Error | Done

datatype ev_type = TrackEv | AlbumEv | PlaylistEv

text \<open>
  A progress event as handed to \<^verbatim>\<open>Download_JOB.report_progress\<close>. The fields kept are
  the ones the properties below speak about; the parent block and the URLs are left out.
\<close>

record event =
  ev_type :: ev_type
  ev_status :: status
  ev_song :: "string option"
  ev_error :: "string option"
  ev_retry_count :: "nat option"
  ev_seconds_left :: "int option"
  ev_successful :: "nat option"
  ev_failed :: "nat option"

datatype m3u_line = Header | Entry path

text \<open>
  The process-wide state: the file system, the module globals
  \<^verbatim>\<open>ACTIVE_DOWNLOADS\<close>, \<^verbatim>\<open>CURRENT_DOWNLOAD\<close>, \<^verbatim>\<open>CLEANUP_LOCK\<close> and
  \<^verbatim>\<open>GLOBAL_RETRY_COUNT\<close>, and a log of what the code did to the outside: the events
  reported, the \<^verbatim>\<open>time.sleep\<close> calls, the number of \<^verbatim>\<open>load_track\<close> requests and
  the URLs fetched over HTTP.
\<close>

record world =
  files :: "(path \<times> afile) list"
  dirs :: "string list"
  m3u :: "(path \<times> m3u_line list) list"
  active :: "path set"
  current :: "path option"
  cleanup_lock :: bool
  global_retry_count :: nat
  events :: "event list"
  sleeps :: "int list"
  loads :: nat
  requests :: "string list"

definition GLOBAL_MAX_RETRIES :: nat where
  "GLOBAL_MAX_RETRIES = 100"

subsection \<open>File system primitives\<close>

definition exists_file :: "world \<Rightarrow> path \<Rightarrow> bool" where
  "exists_file w p = (map_of (files w) p \<noteq> None)"

definition delete_entry :: "path \<Rightarrow> (path \<times> 'a) list \<Rightarrow> (path \<times> 'a) list" where
  "delete_entry p xs = filter (\<lambda>e. fst e \<noteq> p) xs"

text \<open>\<^verbatim>\<open>os.remove\<close>; every call site tests \<^verbatim>\<open>os.path.exists\<close> first.\<close>

definition remove_file :: "path \<Rightarrow> world \<Rightarrow> world" where
  "remove_file p w = w\<lparr>files := delete_entry p (files w)\<rparr>"

definition put_file :: "path \<Rightarrow> afile \<Rightarrow> world \<Rightarrow> world" where
  "put_file p f w = w\<lparr>files := (p, f) # delete_entry p (files w)\<rparr>"

definition remove_if_exists :: "path \<Rightarrow> world \<Rightarrow> world" where
  "remove_if_exists p w = (if exists_file w p then remove_file p w else w)"

text \<open>
  A path as the string the code holds, and its \<^verbatim>\<open>repr\<close> (taken to be the string
  between single quotes).
\<close>

definition path_str :: "path \<Rightarrow> string" where
  "path_str p = (if fst p = [] then snd p else fst p @ ''/'' @ snd p)"

definition quoted :: "string \<Rightarrow> string" where
  "quoted s = CHR 0x27 # s @ [CHR 0x27]"

text \<open>
  \<^verbatim>\<open>os.replace(src, dst)\<close>: moves the file over the destination; raises when the
  source or the directory of the destination does not exist.
\<close>

definition os_replace :: "path \<Rightarrow> path \<Rightarrow> world \<Rightarrow> exn + world" where
  "os_replace src dst w =
     (case map_of (files w) src of
        None \<Rightarrow> Inl (FileNotFoundError (quoted (path_str src) @ '' -> '' @ quoted (path_str dst)))
      | Some f \<Rightarrow>
          if fst dst \<in> set (dirs w) then Inr (put_file dst f (remove_file src w))
          else Inl (FileNotFoundError (quoted (path_str src) @ '' -> '' @ quoted (path_str dst))))"

definition makedirs :: "string \<Rightarrow> world \<Rightarrow> world" where
  "makedirs d w = (if d \<in> set (dirs w) then w else w\<lparr>dirs := d # dirs w\<rparr>)"

definition report_progress :: "event \<Rightarrow> world \<Rightarrow> world" where
  "report_progress e w = w\<lparr>events := events w @ [e]\<rparr>"

text \<open>\<^verbatim>\<open>time.sleep\<close>: a negative length raises \<^verbatim>\<open>ValueError\<close>.\<close>

definition sleep :: "int \<Rightarrow> world \<Rightarrow> exn + world" where
  "sleep d w =
     (if d < 0 then Inl (ValueError ''sleep length must be non-negative'')
      else Inr (w\<lparr>sleeps := sleeps w @ [d]\<rparr>))"

text \<open>An HTTP \<^verbatim>\<open>request(url).content\<close>: the URL is logged, the answer is the collaborator's.\<close>

definition fetch :: "(string \<Rightarrow> exn + string) \<Rightarrow> string \<Rightarrow> world \<Rightarrow> (exn + string) \<times> world" where
  "fetch req url w = (req url, w\<lparr>requests := requests w @ [url]\<rparr>)"

definition base_event :: "ev_type \<Rightarrow> status \<Rightarrow> string option \<Rightarrow> event" where
  "base_event t s song =
     \<lparr>ev_type = t, ev_status = s, ev_song = song, ev_error = None, ev_retry_count = None,
      ev_seconds_left = None, ev_successful = None, ev_failed = None\<rparr>"

section \<open>Active-item registry\<close>

definition register_active_download :: "path \<Rightarrow> world \<Rightarrow> world" where
  "register_active_download p w = w\<lparr>active := insert p (active w), current := Some p\<rparr>"

definition unregister_active_download :: "path \<Rightarrow> world \<Rightarrow> world" where
  "unregister_active_download p w =
     (if p \<in> active w
      then (if current w = Some p
            then w\<lparr>active := active w - {p}, current := None\<rparr>
            else w\<lparr>active := active w - {p}\<rparr>)
      else w)"

text \<open>Python truthiness of a path string: the empty string is false.\<close>

definition truthy :: "path \<Rightarrow> bool" where
  "truthy p = (p \<noteq> ('''', ''''))"

text \<open>
  \<^verbatim>\<open>cleanup_active_downloads\<close>. The \<^verbatim>\<open>unregister\<close> call sits inside the
  \<^verbatim>\<open>if os.path.exists\<close> block, as in the source.
\<close>

definition cleanup_active_downloads :: "world \<Rightarrow> world" where
  "cleanup_active_downloads w =
     (if cleanup_lock w then w
      else
        let w1 = w\<lparr>cleanup_lock := True\<rparr>;
            w2 = (case current w1 of
                    None \<Rightarrow> w1
                  | Some p \<Rightarrow>
                      if truthy p
                      then (if exists_file w1 p
                            then unregister_active_download p (remove_file p w1)
                            else w1)
                      else w1)
        in w2\<lparr>cleanup_lock := False\<rparr>)"

text \<open>\<^verbatim>\<open>signal_handler\<close>: cleanup, then the process exits.\<close>

definition signal_handler :: "world \<Rightarrow> world" where
  "signal_handler w = cleanup_active_downloads w"

section \<open>Strings\<close>

text \<open>\<^verbatim>\<open>str.endswith\<close>, \<^verbatim>\<open>str.lower\<close> (on ASCII letters) and \<^verbatim>\<open>sub in s\<close>.\<close>

definition endswith :: "string \<Rightarrow> string \<Rightarrow> bool" where
  "endswith s suf = (length suf \<le> length s \<and> drop (length s - length suf) s = suf)"

definition lower_char :: "char \<Rightarrow> char" where
  "lower_char c =
     (let n = (of_char c :: nat) in if 65 \<le> n \<and> n \<le> 90 then char_of (n + 32) else c)"

definition lower :: "string \<Rightarrow> string" where
  "lower s = map lower_char s"

fun contains :: "string \<Rightarrow> string \<Rightarrow> bool" where
  "contains sub [] = (sub = [])"
| "contains sub (c # cs) = (take (length sub) (c # cs) = sub \<or> contains sub cs)"

text \<open>
  \<^verbatim>\<open>s.replace(".ogg", ".tmp")\<close>: every occurrence, left to right. On a path the
  pattern cannot straddle the separator, so the two components are rewritten separately.
\<close>

fun replace_ogg :: "string \<Rightarrow> string" where
  "replace_ogg [] = []"
| "replace_ogg (c # cs) =
     (if take 4 (c # cs) = ''.ogg'' then ''.tmp'' @ replace_ogg (drop 3 cs)
      else c # replace_ogg cs)"

definition temp_filename :: "path \<Rightarrow> path" where
  "temp_filename p = (replace_ogg (fst p), replace_ogg (snd p))"

section \<open>Media results and request descriptors\<close>

text \<open>
  Modelled from the spec: the class \<^verbatim>\<open>Track\<close> of \<^verbatim>\<open>deezspot.models\<close> is not among
  the sources. It is the spec's Media Result: metadata mapping, resolved output path,
  container format, quality label, source link, catalog id, a \<open>success\<close> flag and a
  \<open>was_skipped\<close> flag. A fresh result counts as successful and not skipped; the code
  only ever assigns \<^verbatim>\<open>success = False\<close> and \<^verbatim>\<open>was_skipped = True\<close>.
\<close>

record track =
  t_tags :: metadata
  song_path :: "path option"
  file_format :: "string option"
  quality :: "string option"
  link :: "string option"
  ids :: "string option"
  success :: bool
  was_skipped :: bool

definition Track ::
  "metadata \<Rightarrow> path option \<Rightarrow> string option \<Rightarrow> string option \<Rightarrow> string option \<Rightarrow>
   string option \<Rightarrow> track" where
  "Track md sp ff q l i =
     \<lparr>t_tags = md, song_path = sp, file_format = ff, quality = q, link = l, ids = i,
      success = True, was_skipped = False\<rparr>"

record episode =
  ep_tags :: metadata
  episode_path :: "path option"
  ep_file_format :: "string option"

datatype media = MTrack track | MEpisode episode | MOther

text \<open>
  The request descriptor (\<^verbatim>\<open>Preferences\<close>). The retry settings are read with
  \<^verbatim>\<open>getattr(..., default)\<close>, hence optional. Quality and naming templates only feed
  \<^verbatim>\<open>set_path\<close> and are part of its parameter below.
\<close>

record preferences =
  p_ids :: string
  p_link :: string
  p_output_dir :: string
  p_song_metadata :: metadata
  p_convert_to :: "string option"
  p_initial_retry_delay :: "int option"
  p_retry_delay_increase :: "int option"
  p_max_retries :: "int option"
  p_track_number :: nat
  p_make_zip :: bool

section \<open>External collaborators\<close>

text \<open>
  One attempt of the body of the acquisition loop of \<^verbatim>\<open>download_try\<close>:
  \<open>LoadFails\<close> is an exception before the file is opened (\<^verbatim>\<open>from_base62\<close>,
  \<^verbatim>\<open>load_track\<close>, \<^verbatim>\<open>stream()\<close>); \<open>WriteFails e d\<close> an exception inside the inner
  \<^verbatim>\<open>try\<close>, with \<open>d\<close> the bytes on disk at that moment (\<open>None\<close> when \<^verbatim>\<open>open\<close> itself
  failed); \<open>WriteOk d\<close> a stream of bytes \<open>d\<close> written in full. The pacing sleeps and
  the \<^verbatim>\<open>real-time\<close> events of the real-time branch depend on the wall clock and are not
  logged; both branches leave the same file.
\<close>

datatype attempt = LoadFails exn | WriteFails exn "string option" | WriteOk string

text \<open>
  \<^verbatim>\<open>os.system(ffmpeg_cmd)\<close> returns the exit status: \<open>FfOk\<close> is status 0 with the copy
  written, \<open>FfErr d\<close> a non-zero status with \<open>d\<close> what the process left at the output path
  (\<open>None\<close>: nothing), \<open>SystemRaises\<close> an exception of the call itself.
\<close>

datatype ffmpeg_outcome = FfOk | FfErr "string option" | SystemRaises exn

text \<open>
  The collaborators that are not in the sources, as parameters: the path builder
  \<^verbatim>\<open>set_path\<close>, the \<^verbatim>\<open>qualities\<close> table entry in use, the streaming session (by
  catalog id and number of earlier local failures), the external encoder (by input file
  and call number), \<^verbatim>\<open>parse_format_string\<close> and \<^verbatim>\<open>convert_audio\<close> of
  \<^verbatim>\<open>deezspot.libutils.audio_converter\<close>, the HTTP \<^verbatim>\<open>request\<close>, and faults of
  \<^verbatim>\<open>os.listdir\<close>, of the tag library and of the playlist-file and archive writes.
\<close>

record env =
  set_path :: "metadata \<Rightarrow> preferences \<Rightarrow> path"
  f_format :: string
  s_quality :: string
  load_track :: "string \<Rightarrow> nat \<Rightarrow> attempt"
  ffmpeg :: "path \<Rightarrow> nat \<Rightarrow> ffmpeg_outcome"
  parse_format_string :: "string \<Rightarrow> exn + string option \<times> string option"
  transcode :: "path \<Rightarrow> string \<Rightarrow> string option \<Rightarrow> exn + path \<times> fkind"
  request :: "string \<Rightarrow> exn + string"
  listdir_fault :: "string \<Rightarrow> exn option"
  media_fault :: "media \<Rightarrow> exn option"
  tag_fault :: "path \<Rightarrow> exn option"
  m3u_fault :: "nat \<Rightarrow> exn option"
  zip_fault :: "exn option"

section \<open>Tag writer\<close>

definition dict_set :: "string \<Rightarrow> string \<Rightarrow> metadata \<Rightarrow> metadata" where
  "dict_set k v md = (k, v) # filter (\<lambda>e. fst e \<noteq> k) md"

definition get_or :: "metadata \<Rightarrow> string \<Rightarrow> string \<Rightarrow> string" where
  "get_or md k d = (case map_of md k of None \<Rightarrow> d | Some v \<Rightarrow> v)"

text \<open>
  Metadata values are strings in the model: a number is its decimal text, a byte string
  its bytes, and an image value that starts with \<^verbatim>\<open>http\<close> is the URL (a \<^verbatim>\<open>str\<close> in the
  code), any other the image bytes. \<^verbatim>\<open>int(s)\<close> is taken to accept an optional sign
  followed by digits.
\<close>

definition is_digit :: "char \<Rightarrow> bool" where
  "is_digit c = (let n = (of_char c :: nat) in 48 \<le> n \<and> n \<le> 57)"

definition isdigit :: "string \<Rightarrow> bool" where
  "isdigit s = (s \<noteq> [] \<and> list_all is_digit s)"

definition nat_of_digits :: "string \<Rightarrow> nat" where
  "nat_of_digits s = foldl (\<lambda>n c. 10 * n + ((of_char c :: nat) - 48)) 0 s"

fun show_nat :: "nat \<Rightarrow> string" where
  "show_nat n =
     (if n < 10 then [char_of (48 + n)] else show_nat (n div 10) @ [char_of (48 + n mod 10)])"

declare show_nat.simps [simp del]

definition show_int :: "int \<Rightarrow> string" where
  "show_int i = (if i < 0 then CHR ''-'' # show_nat (nat (- i)) else show_nat (nat i))"

definition is_int_text :: "string \<Rightarrow> bool" where
  "is_int_text s =
     (case s of
        [] \<Rightarrow> False
      | c # r \<Rightarrow> if c = CHR ''-'' \<or> c = CHR ''+'' then isdigit r else isdigit s)"

definition is_url :: "string \<Rightarrow> bool" where
  "is_url v = (take 4 v = ''http'')"

text \<open>\<^verbatim>\<open>value.split()[0]\<close>, with the space as the only white space.\<close>

definition first_word :: "string \<Rightarrow> string" where
  "first_word v = takeWhile (\<lambda>c. c \<noteq> CHR '' '') (dropWhile (\<lambda>c. c = CHR '' '') v)"

text \<open>
  The image bytes a writer embeds: the bytes themselves, or what the URL gives
  (nothing when the request fails).
\<close>

definition picture_data :: "env \<Rightarrow> metadata \<Rightarrow> world \<Rightarrow> string \<times> world" where
  "picture_data env md w =
     (case map_of md ''image'' of
        None \<Rightarrow> ([], w)
      | Some v \<Rightarrow>
          if is_url v
          then (case fetch (request env) v w of
                  (Inl ex, w') \<Rightarrow> ([], w')
                | (Inr b, w') \<Rightarrow> (b, w'))
          else (v, w))"

text \<open>
  The end of every writer: \<^verbatim>\<open>save()\<close>. The tags on disk were deleted at the start, so
  an exception on the way (\<open>Inl\<close> in the third argument, or a fault of the library when
  saving) leaves the file without tags.
\<close>

definition save_tags ::
  "env \<Rightarrow> path \<Rightarrow> afile \<Rightarrow> exn + metadata \<Rightarrow> world \<Rightarrow> (exn + unit) \<times> world" where
  "save_tags env song f r w =
     (case r of
        Inl ex \<Rightarrow> (Inl ex, put_file song (f\<lparr>tags := []\<rparr>) w)
      | Inr ts \<Rightarrow>
          (case tag_fault env song of
             Some ex \<Rightarrow> (Inl ex, put_file song (f\<lparr>tags := []\<rparr>) w)
           | None \<Rightarrow> (Inr (), put_file song (f\<lparr>tags := ts\<rparr>) w)))"

definition swallow :: "(exn + unit) \<times> world \<Rightarrow> (exn + unit) \<times> world" where
  "swallow r = (case r of (Inl ex, w) \<Rightarrow> (Inr (), w) | (Inr u, w) \<Rightarrow> (Inr u, w))"

subsection \<open>FLAC\<close>

text \<open>
  \<^verbatim>\<open>metadata_fields\<close> of \<^verbatim>\<open>__write_flac\<close>. The date is written for a
  \<^verbatim>\<open>datetime\<close> value only, which the model's metadata does not have; the length is the
  duration in milliseconds.
\<close>

definition flac_length :: "metadata \<Rightarrow> exn + string" where
  "flac_length md =
     (case map_of md ''duration'' of
        None \<Rightarrow> Inr ''0''
      | Some v \<Rightarrow>
          if isdigit v then Inr (show_nat (nat_of_digits v * 1000))
          else Inl (ValueError ''invalid literal for int()''))"

definition flac_fields :: "metadata \<Rightarrow> string \<Rightarrow> metadata" where
  "flac_fields md len =
     [(''lyrics'', get_or md ''lyric'' []), (''artist'', get_or md ''artist'' []),
      (''title'', get_or md ''music'' []), (''date'', []), (''album'', get_or md ''album'' []),
      (''tracknumber'', get_or md ''tracknum'' []), (''discnumber'', get_or md ''discnum'' []),
      (''genre'', get_or md ''genre'' []), (''albumartist'', get_or md ''ar_album'' []),
      (''author'', get_or md ''author'' []), (''composer'', get_or md ''composer'' []),
      (''copyright'', get_or md ''copyright'' []), (''bpm'', get_or md ''bpm'' []),
      (''length'', len), (''organization'', get_or md ''label'' []),
      (''isrc'', get_or md ''isrc'' []), (''lyricist'', get_or md ''lyricist'' []),
      (''version'', get_or md ''version'' [])]"

text \<open>
  \<^verbatim>\<open>__write_flac\<close> without its handler: the picture block is always added (here as the
  entry \<open>picture\<close>), then the fields that are not empty.
\<close>

definition write_flac_body :: "env \<Rightarrow> path \<Rightarrow> metadata \<Rightarrow> world \<Rightarrow> (exn + unit) \<times> world" where
  "write_flac_body env song data w =
     (case map_of (files w) song of
        None \<Rightarrow> (Inl (FileNotFoundError (quoted (path_str song))), w)
      | Some f \<Rightarrow>
          if kind f = Flac
          then (case picture_data env data w of
                  (pic, w1) \<Rightarrow>
                    save_tags env song f
                      (case flac_length data of
                         Inl ex \<Rightarrow> Inl ex
                       | Inr len \<Rightarrow>
                           Inr ((''picture'', pic) #
                                filter (\<lambda>e. snd e \<noteq> []) (flac_fields data len)))
                      w1)
          else (Inl (Failure ''not a valid FLAC file''), w))"

definition write_flac :: "env \<Rightarrow> path \<Rightarrow> metadata \<Rightarrow> world \<Rightarrow> (exn + unit) \<times> world" where
  "write_flac env song data w = swallow (write_flac_body env song data w)"

subsection \<open>Ogg Vorbis\<close>

definition field_mapping :: "(string \<times> string) list" where
  "field_mapping =
     [(''music'', ''title''), (''artist'', ''artist''), (''album'', ''album''),
      (''tracknum'', ''tracknumber''), (''discnum'', ''discnumber''), (''year'', ''date''),
      (''genre'', ''genre''), (''isrc'', ''isrc''), (''description'', ''description''),
      (''ar_album'', ''albumartist''), (''composer'', ''composer''),
      (''copyright'', ''copyright''), (''bpm'', ''bpm''), (''lyricist'', ''lyricist''),
      (''version'', ''version'')]"

text \<open>
  The loop over \<^verbatim>\<open>field_mapping\<close>: a date with a space keeps its first word, a BPM
  that is not a number is skipped.
\<close>

fun ogg_text :: "(string \<times> string) list \<Rightarrow> metadata \<Rightarrow> exn + metadata" where
  "ogg_text [] md = Inr []"
| "ogg_text ((source_key, vorbis_key) # rest) md =
     (case map_of md source_key of
        None \<Rightarrow> ogg_text rest md
      | Some v \<Rightarrow>
          if vorbis_key = ''date'' \<and> CHR '' '' \<in> set v \<and> first_word v = []
          then Inl IndexError
          else if vorbis_key = ''bpm'' \<and> \<not> isdigit v then ogg_text rest md
          else (case ogg_text rest md of
                  Inl ex \<Rightarrow> Inl ex
                | Inr ts \<Rightarrow>
                    Inr ((vorbis_key,
                          if vorbis_key = ''date'' \<and> CHR '' '' \<in> set v then first_word v else v)
                         # ts)))"

definition ogg_lyrics :: "metadata \<Rightarrow> metadata" where
  "ogg_lyrics md =
     (case map_of md ''lyric'' of
        None \<Rightarrow> []
      | Some v \<Rightarrow> if v = [] then [] else [(''lyrics'', v)])"

text \<open>The check of the numeric fields at the end of \<^verbatim>\<open>__write_ogg\<close>.\<close>

definition numeric_ok :: "string \<times> string \<Rightarrow> bool" where
  "numeric_ok e =
     (if fst e = ''tracknumber'' \<or> fst e = ''discnumber'' then is_int_text (snd e) else True)"

text \<open>
  \<^verbatim>\<open>__write_ogg\<close> without its handler. The cover is stored base64-encoded under
  \<^verbatim>\<open>metadata_block_picture\<close>; the model keeps the bytes.
\<close>

definition write_ogg_body :: "env \<Rightarrow> path \<Rightarrow> metadata \<Rightarrow> world \<Rightarrow> (exn + unit) \<times> world" where
  "write_ogg_body env song data w =
     (case map_of (files w) song of
        None \<Rightarrow> (Inl (FileNotFoundError (quoted (path_str song))), w)
      | Some f \<Rightarrow>
          if kind f = Ogg
          then (case ogg_text field_mapping data of
                  Inl ex \<Rightarrow> save_tags env song f (Inl ex) w
                | Inr text_tags \<Rightarrow>
                    (case picture_data env data w of
                       (pic, w1) \<Rightarrow>
                         save_tags env song f
                           (Inr (filter numeric_ok
                                   (text_tags @ ogg_lyrics data @
                                    (if pic = [] then []
                                     else [(''metadata_block_picture'', pic)]))))
                           w1))
          else (Inl (Failure ''not a valid Ogg Vorbis file''), w))"

definition write_ogg :: "env \<Rightarrow> path \<Rightarrow> metadata \<Rightarrow> world \<Rightarrow> (exn + unit) \<times> world" where
  "write_ogg env song data w = swallow (write_ogg_body env song data w)"

subsection \<open>MP3\<close>

definition frame_if :: "metadata \<Rightarrow> string \<Rightarrow> string \<Rightarrow> metadata" where
  "frame_if md key name =
     (case map_of md key of
        None \<Rightarrow> []
      | Some v \<Rightarrow> if v = [] then [] else [(name, v)])"

text \<open>
  The frames \<^verbatim>\<open>__write_mp3\<close> adds, under the names \<^verbatim>\<open>EasyID3\<close> reads them by where
  it has one. The cover is embedded only when the image is bytes; the year frames need a
  \<^verbatim>\<open>datetime\<close> value.
\<close>

definition mp3_frames :: "metadata \<Rightarrow> metadata" where
  "mp3_frames md =
     (case map_of md ''image'' of
        None \<Rightarrow> []
      | Some v \<Rightarrow> if v = [] \<or> is_url v then [] else [(''APIC'', v)]) @
     [(''COMM'', ''DO NOT USE FOR YOUR OWN EARNING'')] @
     frame_if md ''lyric'' ''USLT'' @
     frame_if md ''lyric_sync'' ''SYLT'' @
     frame_if md ''isrc'' ''isrc'' @
     (case map_of md ''tracknum'' of
        None \<Rightarrow> []
      | Some t \<Rightarrow>
          (case map_of md ''nb_tracks'' of
             None \<Rightarrow> [(''tracknumber'', t)]
           | Some n \<Rightarrow> [(''tracknumber'', t @ ''/'' @ n)])) @
     frame_if md ''music'' ''title'' @
     (case map_of md ''duration'' of None \<Rightarrow> [] | Some v \<Rightarrow> [(''length'', v)]) @
     frame_if md ''lyricist'' ''lyricist'' @
     frame_if md ''genre'' ''genre'' @
     frame_if md ''album'' ''album'' @
     frame_if md ''bpm'' ''bpm'' @
     frame_if md ''artist'' ''artist'' @
     (case map_of md ''discnum'' of None \<Rightarrow> [] | Some v \<Rightarrow> [(''discnumber'', v @ ''/'' @ v)]) @
     frame_if md ''ar_album'' ''albumartist'' @
     frame_if md ''label'' ''organization'' @
     frame_if md ''copyright'' ''copyright'' @
     (case map_of md ''gain'' of
        None \<Rightarrow> []
      | Some v \<Rightarrow> [(''TXXX:REPLAYGAIN_TRACK_GAIN'', v)]) @
     frame_if md ''composer'' ''composer'' @
     frame_if md ''author'' ''IPLS''"

text \<open>
  \<^verbatim>\<open>__write_mp3\<close> without its handler: a file without an ID3 header gets a fresh one
  (\<^verbatim>\<open>except ID3NoHeaderError: audio = ID3()\<close>), so a file of another kind has the header
  put in front of its bytes and is no longer readable as what it was.
\<close>

definition write_mp3_body :: "env \<Rightarrow> path \<Rightarrow> metadata \<Rightarrow> world \<Rightarrow> (exn + unit) \<times> world" where
  "write_mp3_body env song data w =
     (case map_of (files w) song of
        None \<Rightarrow> (Inl (FileNotFoundError (quoted (path_str song))), w)
      | Some f \<Rightarrow>
          if kind f = Mp3 then save_tags env song f (Inr (mp3_frames data)) w
          else (case tag_fault env song of
                  Some ex \<Rightarrow> (Inl ex, w)
                | None \<Rightarrow>
                    (Inr (),
                     put_file song \<lparr>kind = Corrupt, tags = [], payload = ''ID3'' @ payload f\<rparr> w)))"

definition write_mp3 :: "env \<Rightarrow> path \<Rightarrow> metadata \<Rightarrow> world \<Rightarrow> (exn + unit) \<times> world" where
  "write_mp3 env song data w = swallow (write_mp3_body env song data w)"

subsection \<open>The entry point\<close>

text \<open>
  The body of \<^verbatim>\<open>write_tags\<close>. \<open>media_fault\<close> stands for an exception of the body
  itself (an attribute of the media object, the path test).
\<close>

definition write_tags_body :: "env \<Rightarrow> media \<Rightarrow> world \<Rightarrow> (exn + unit) \<times> world" where
  "write_tags_body env m w =
     (case media_fault env m of
        Some ex \<Rightarrow> (Inl ex, w)
      | None \<Rightarrow>
          (case (case m of
                   MTrack t \<Rightarrow> Some (song_path t, t_tags t, file_format t)
                 | MEpisode e \<Rightarrow> Some (episode_path e, ep_tags e, ep_file_format e)
                 | MOther \<Rightarrow> None) of
             None \<Rightarrow> (Inr (), w)
           | Some (song, song_metadata, ff) \<Rightarrow>
               (case song of
                  None \<Rightarrow> (Inr (), w)
                | Some p \<Rightarrow>
                    if truthy p
                    then (if exists_file w p
                          then (if ff = Some ''.flac'' then write_flac env p song_metadata w
                                else if ff = Some ''.ogg'' then write_ogg env p song_metadata w
                                else write_mp3 env p song_metadata w)
                          else (Inr (), w))
                    else (Inr (), w))))"

definition write_tags :: "env \<Rightarrow> media \<Rightarrow> world \<Rightarrow> (exn + unit) \<times> world" where
  "write_tags env m w = swallow (write_tags_body env m w)"

section \<open>Existence check\<close>

definition audio_extensions :: "string list" where
  "audio_extensions = [''.mp3'', ''.ogg'', ''.flac'', ''.wav'', ''.m4a'', ''.opus'']"

definition tag_pair :: "afile \<Rightarrow> string \<Rightarrow> string \<Rightarrow> string option \<times> string option" where
  "tag_pair f kt ka = (map_of (tags f) kt, map_of (tags f) ka)"

text \<open>
  \<^verbatim>\<open>read_metadata\<close>. The MP3 branch has a handler of its own that leaves both tags
  \<^verbatim>\<open>None\<close>; in the other branches a parser that raises ends in the outer handler, which
  returns \<^verbatim>\<open>(None, None)\<close> too.
\<close>

definition read_metadata :: "world \<Rightarrow> path \<Rightarrow> string option \<times> string option" where
  "read_metadata w file_path =
     (case map_of (files w) file_path of
        None \<Rightarrow> (None, None)
      | Some f \<Rightarrow>
          if kind f = Corrupt then (None, None)
          else if kind f = Unknown \<or> kind f = Raw then (None, None)
          else if endswith (snd file_path) ''.mp3''
            then (if kind f = Mp3 then tag_pair f ''title'' ''album'' else (None, None))
          else if endswith (snd file_path) ''.ogg''
            then (if kind f = Ogg then tag_pair f ''title'' ''album'' else (None, None))
          else if endswith (snd file_path) ''.flac''
            then (if kind f = Flac then tag_pair f ''title'' ''album'' else (None, None))
          else if endswith (snd file_path) ''.m4a''
            then (if kind f = Mp4
                  then tag_pair f (CHR 0xA9 # ''nam'') (CHR 0xA9 # ''alb'')
                  else (None, None))
          else (None, None))"

section \<open>Per-item orchestrator\<close>

datatype parent = PAlbum | PPlaylist

text \<open>The fields of an \<^verbatim>\<open>EASY_DW\<close> object that change while it runs.\<close>

record easy =
  e_prefs :: preferences
  e_parent :: "parent option"
  e_song_metadata :: metadata
  e_song_path :: path
  e_c_track :: track

definition make_track :: "env \<Rightarrow> preferences \<Rightarrow> metadata \<Rightarrow> path \<Rightarrow> track" where
  "make_track env prefs md sp =
     Track md (Some sp) (Some (f_format env)) (Some (s_quality env)) (Some (p_link prefs))
       (Some (p_ids prefs))"

text \<open>\<^verbatim>\<open>__init__\<close> for a track (not an episode): it ends with \<^verbatim>\<open>__write_track\<close>.\<close>

definition EASY_DW :: "env \<Rightarrow> preferences \<Rightarrow> parent option \<Rightarrow> easy" where
  "EASY_DW env prefs par =
     (let md = p_song_metadata prefs; sp = set_path env md prefs
      in \<lparr>e_prefs = prefs, e_parent = par, e_song_metadata = md, e_song_path = sp,
          e_c_track = make_track env prefs md sp\<rparr>)"

definition write_track :: "env \<Rightarrow> easy \<Rightarrow> easy" where
  "write_track env e =
     (let sp = set_path env (e_song_metadata e) (e_prefs e)
      in e\<lparr>e_song_path := sp,
           e_c_track := make_track env (e_prefs e) (e_song_metadata e) sp\<rparr>)"

text \<open>The first lines of \<^verbatim>\<open>track_exists\<close>: an empty path is resolved again.\<close>

definition ensure_song_path :: "env \<Rightarrow> easy \<Rightarrow> easy" where
  "ensure_song_path env e =
     (if truthy (e_song_path e) then e
      else e\<lparr>e_song_path := set_path env (e_song_metadata e) (e_prefs e)\<rparr>)"

definition listdir :: "world \<Rightarrow> string \<Rightarrow> string list" where
  "listdir w d = map snd (filter (\<lambda>p. fst p = d) (map fst (files w)))"

definition is_audio_name :: "string \<Rightarrow> bool" where
  "is_audio_name name = list_ex (endswith (lower name)) audio_extensions"

text \<open>
  The body of \<^verbatim>\<open>track_exists\<close>: a missing directory gives \<^verbatim>\<open>False\<close>; otherwise
  the directory is listed (which may raise) and its files with an audio extension are
  read one by one.
\<close>

definition track_exists_body ::
  "env \<Rightarrow> easy \<Rightarrow> world \<Rightarrow> string option \<Rightarrow> string option \<Rightarrow> exn + bool" where
  "track_exists_body env e w title album =
     (let final_dir = fst (e_song_path (ensure_song_path env e))
      in if final_dir \<in> set (dirs w)
         then (case listdir_fault env final_dir of
                 Some ex \<Rightarrow> Inl ex
               | None \<Rightarrow>
                   Inr (list_ex (\<lambda>name. is_audio_name name \<and>
                                         read_metadata w (final_dir, name) = (title, album))
                          (listdir w final_dir)))
         else Inr False)"

text \<open>\<^verbatim>\<open>track_exists\<close>: the body inside \<^verbatim>\<open>try ... except Exception: return False\<close>.\<close>

definition track_exists ::
  "env \<Rightarrow> easy \<Rightarrow> world \<Rightarrow> string option \<Rightarrow> string option \<Rightarrow> bool" where
  "track_exists env e w title album =
     (case track_exists_body env e w title album of Inl ex \<Rightarrow> False | Inr b \<Rightarrow> b)"

text \<open>
  \<^verbatim>\<open>str(e)\<close>. The class \<^verbatim>\<open>TrackNotFound\<close> of \<^verbatim>\<open>deezspot.exceptions\<close> is not
  among the sources; its text is a placeholder.
\<close>

fun str_exn :: "exn \<Rightarrow> string" where
  "str_exn TrackNotFound = ''Track not found''"
| "str_exn (FileNotFoundError s) = ''[Errno 2] No such file or directory: '' @ s"
| "str_exn (KeyError k) = quoted k"
| "str_exn IndexError = ''list index out of range''"
| "str_exn (ValueError msg) = msg"
| "str_exn (MaxRetriesReached l g) =
     ''Maximum retry limit reached (local: '' @ show_int l @ '', global: '' @ show_nat g @ '').''"
| "str_exn (Failure msg) = msg"

definition song_of :: "metadata \<Rightarrow> string option" where
  "song_of md = Some (get_or md ''music'' [])"

definition retrying_event :: "metadata \<Rightarrow> nat \<Rightarrow> int \<Rightarrow> exn \<Rightarrow> event" where
  "retrying_event md retries retry_delay ex =
     (base_event TrackEv Retrying (song_of md))
       \<lparr>ev_error := Some (str_exn ex), ev_retry_count := Some retries,
        ev_seconds_left := Some retry_delay\<rparr>"

definition error_event :: "metadata \<Rightarrow> string \<Rightarrow> event" where
  "error_event md msg = (base_event TrackEv Error (song_of md))\<lparr>ev_error := Some msg\<rparr>"

text \<open>
  The acquisition loop of \<^verbatim>\<open>download_try\<close> (\<^verbatim>\<open>while True\<close>), from the state with
  \<open>retries\<close> local failures so far. It returns the retry delay reached, which the
  conversion stage uses for its own backoff, or the terminal exception.
\<close>

function acquire_stream ::
  "env \<Rightarrow> easy \<Rightarrow> int \<Rightarrow> int \<Rightarrow> nat \<Rightarrow> int \<Rightarrow> world \<Rightarrow> (exn + int) \<times> world" where
  "acquire_stream env e max_retries increase retries retry_delay w =
     (case load_track env (p_ids (e_prefs e)) retries of
        WriteOk d \<Rightarrow>
          (let sp = e_song_path e;
               w1 = register_active_download sp (makedirs (fst sp) (w\<lparr>loads := loads w + 1\<rparr>));
               w2 = put_file sp \<lparr>kind = Raw, tags = [], payload = d\<rparr> w1
           in (Inr retry_delay, unregister_active_download sp w2))
      | WriteFails ex d \<Rightarrow>
          (let sp = e_song_path e;
               w1 = register_active_download sp (makedirs (fst sp) (w\<lparr>loads := loads w + 1\<rparr>));
               w2 = (case d of
                       None \<Rightarrow> w1
                     | Some b \<Rightarrow> put_file sp \<lparr>kind = Raw, tags = [], payload = b\<rparr> w1);
               w3 = unregister_active_download sp (remove_if_exists sp w2)
           in (Inr retry_delay, unregister_active_download sp w3))
      | LoadFails ex \<Rightarrow>
          (let sp = e_song_path e;
               w1 = w\<lparr>loads := loads w + 1, global_retry_count := global_retry_count w + 1\<rparr>;
               w2 = unregister_active_download sp (remove_if_exists sp w1);
               w3 = report_progress
                      (retrying_event (e_song_metadata e) (retries + 1) retry_delay ex) w2
           in if max_retries \<le> int (retries + 1) \<or> GLOBAL_MAX_RETRIES \<le> global_retry_count w3
              then (Inl (MaxRetriesReached max_retries GLOBAL_MAX_RETRIES),
                    remove_if_exists sp w3)
              else (case sleep retry_delay w3 of
                      Inl sleep_error \<Rightarrow> (Inl sleep_error, w3)
                    | Inr w4 \<Rightarrow>
                        acquire_stream env e max_retries increase (retries + 1)
                          (retry_delay + increase) w4)))"
  by pat_completeness auto
termination
  by (relation "measure (\<lambda>(env, e, max_retries, increase, retries, retry_delay, w).
                  nat (max_retries - int retries))") auto

declare acquire_stream.simps [simp del]

text \<open>
  Modelled from the spec: \<^verbatim>\<open>convert_audio\<close> of \<^verbatim>\<open>deezspot.libutils.audio_converter\<close> is
  not among the sources. On success it has produced the file in the requested format at
  the path it returns and that file replaces the working file.
\<close>

definition convert_audio ::
  "env \<Rightarrow> path \<Rightarrow> string \<Rightarrow> string option \<Rightarrow> world \<Rightarrow> (exn + path) \<times> world" where
  "convert_audio env sp format_name bitrate w =
     (case transcode env sp format_name bitrate of
        Inl ex \<Rightarrow> (Inl ex, w)
      | Inr (cp, k) \<Rightarrow>
          (case map_of (files w) sp of
             None \<Rightarrow> (Inl (FileNotFoundError (quoted (path_str sp))), w)
           | Some f \<Rightarrow>
               if cp = sp then (Inr cp, put_file sp (f\<lparr>kind := k\<rparr>) w)
               else (Inr cp, put_file cp (f\<lparr>kind := k\<rparr>) (remove_file sp w))))"

text \<open>
  The \<^verbatim>\<open>except\<close> block of \<^verbatim>\<open>__convert_audio\<close>: restore, clean up, raise again. An
  exception of the restoring \<^verbatim>\<open>os.replace\<close> takes the place of the original one.
\<close>

definition convert_handler :: "path \<Rightarrow> path \<Rightarrow> exn \<Rightarrow> world \<Rightarrow> (exn + easy) \<times> world" where
  "convert_handler temp sp ex w =
     (case (if exists_file w temp \<and> \<not> exists_file w sp then os_replace temp sp w else Inr w) of
        Inl restore_error \<Rightarrow> (Inl restore_error, w)
      | Inr w1 \<Rightarrow>
          (Inl ex,
           if exists_file w1 temp then unregister_active_download temp (remove_file temp w1)
           else w1))"

text \<open>Step 2 of \<^verbatim>\<open>__convert_audio\<close>: the optional transcode.\<close>

definition convert_step2 :: "env \<Rightarrow> easy \<Rightarrow> path \<Rightarrow> world \<Rightarrow> (exn + easy) \<times> world" where
  "convert_step2 env e temp w =
     (let sp = e_song_path e in
      case p_convert_to (e_prefs e) of
        None \<Rightarrow> (Inr e, w)
      | Some fmt \<Rightarrow>
          if fmt = [] then (Inr e, w)
          else (case parse_format_string env fmt of
                  Inl ex \<Rightarrow> convert_handler temp sp ex w
                | Inr (format_name, bitrate) \<Rightarrow>
                    (case format_name of
                       None \<Rightarrow> (Inr e, w)
                     | Some fname \<Rightarrow>
                         if fname = [] then (Inr e, w)
                         else (case convert_audio env sp fname bitrate w of
                                 (Inl conv_error, w') \<Rightarrow> (Inr e, w')
                               | (Inr converted_path, w') \<Rightarrow>
                                   if converted_path = sp then (Inr e, w')
                                   else (Inr (e\<lparr>e_song_path := converted_path,
                                               e_c_track := (e_c_track e)
                                                 \<lparr>song_path := Some converted_path\<rparr>\<rparr>),
                                         w')))))"

text \<open>
  \<^verbatim>\<open>__convert_audio\<close>, call number \<open>n\<close>. The move to the temporary name is outside the
  \<^verbatim>\<open>try\<close>. The exit status of \<^verbatim>\<open>system\<close> is not looked at.
\<close>

definition convert_audio_stage :: "env \<Rightarrow> easy \<Rightarrow> nat \<Rightarrow> world \<Rightarrow> (exn + easy) \<times> world" where
  "convert_audio_stage env e n w =
     (let sp = e_song_path e; temp = temp_filename sp in
      case os_replace sp temp w of
        Inl ex \<Rightarrow> (Inl ex, w)
      | Inr w0 \<Rightarrow>
          (let w1 = register_active_download temp w0 in
           case ffmpeg env temp n of
             SystemRaises ex \<Rightarrow> convert_handler temp sp ex w1
           | FfOk \<Rightarrow>
               (let w2 = (case map_of (files w1) temp of
                            None \<Rightarrow> w1
                          | Some f \<Rightarrow> put_file sp (f\<lparr>kind := Ogg\<rparr>) w1);
                    w3 = register_active_download sp w2;
                    w4 = (if exists_file w3 temp
                          then unregister_active_download temp (remove_file temp w3)
                          else w3)
                in convert_step2 env e temp w4)
           | FfErr d \<Rightarrow>
               (let w2 = (case d of
                            None \<Rightarrow> w1
                          | Some b \<Rightarrow>
                              put_file sp \<lparr>kind = Corrupt, tags = [], payload = b\<rparr> w1);
                    w3 = register_active_download sp w2;
                    w4 = (if exists_file w3 temp
                          then unregister_active_download temp (remove_file temp w3)
                          else w3)
                in convert_step2 env e temp w4)))"

text \<open>The message of the first \<^verbatim>\<open>error\<close> event of the conversion stage.\<close>

definition conversion_error_msg :: "exn \<Rightarrow> string" where
  "conversion_error_msg ex =
     (if contains ''codec'' (lower (str_exn ex))
      then ''Audio conversion error - Missing codec or unsupported format''
      else if contains ''ffmpeg'' (lower (str_exn ex))
      then ''FFmpeg error - Audio conversion failed''
      else str_exn ex)"

text \<open>The conversion stage of \<^verbatim>\<open>download_try\<close>: one retry after the backoff delay.\<close>

definition convert_with_retry :: "env \<Rightarrow> easy \<Rightarrow> int \<Rightarrow> world \<Rightarrow> (exn + easy) \<times> world" where
  "convert_with_retry env e retry_delay w =
     (case convert_audio_stage env e 0 w of
        (Inr e', w') \<Rightarrow> (Inr e', w')
      | (Inl ex, w') \<Rightarrow>
          (let md = e_song_metadata e;
               w1 = remove_if_exists (e_song_path e)
                      (report_progress (error_event md (conversion_error_msg ex)) w')
           in case sleep retry_delay w1 of
                Inl sleep_error \<Rightarrow> (Inl sleep_error, w1)
              | Inr w2 \<Rightarrow>
                  (case convert_audio_stage env e 1 w2 of
                     (Inr e', w3) \<Rightarrow> (Inr e', w3)
                   | (Inl conv_e, w3) \<Rightarrow>
                       (Inl conv_e,
                        remove_if_exists (e_song_path e)
                          (report_progress
                             (error_event md ''Audio conversion failed after retry'') w3)))))"

text \<open>The end of \<^verbatim>\<open>download_try\<close>: \<^verbatim>\<open>__write_track\<close>, tags, the \<^verbatim>\<open>done\<close> event.\<close>

definition finish :: "env \<Rightarrow> easy \<Rightarrow> world \<Rightarrow> (exn + easy) \<times> world" where
  "finish env e w =
     (let e1 = write_track env e in
      case write_tags env (MTrack (e_c_track e1)) w of
        (Inl ex, w') \<Rightarrow> (Inl ex, w')
      | (Inr _, w') \<Rightarrow>
          (Inr e1, report_progress (base_event TrackEv Done (song_of (e_song_metadata e1))) w'))"

text \<open>
  \<^verbatim>\<open>download_try\<close>. The object is returned with its result in \<open>e_c_track\<close>, as the
  callers read \<^verbatim>\<open>self.__c_track\<close> afterwards.
\<close>

definition download_try :: "env \<Rightarrow> easy \<Rightarrow> world \<Rightarrow> (exn + easy) \<times> world" where
  "download_try env e0 w =
     (let md = e_song_metadata e0;
          current_title = map_of md ''music'';
          current_album = map_of md ''album'';
          e = ensure_song_path env e0
      in if track_exists env e0 w current_title current_album
         then (Inr (e\<lparr>e_c_track := (e_c_track e)\<lparr>success := False, was_skipped := True\<rparr>\<rparr>),
               report_progress (base_event TrackEv Skipped current_title) w)
         else
           (let prefs = e_prefs e;
                retry_delay = (case p_initial_retry_delay prefs of None \<Rightarrow> 30 | Some d \<Rightarrow> d);
                increase = (case p_retry_delay_increase prefs of None \<Rightarrow> 30 | Some d \<Rightarrow> d);
                max_retries = (case p_max_retries prefs of None \<Rightarrow> 5 | Some m \<Rightarrow> m);
                w1 = report_progress (base_event TrackEv Progress (song_of md)) w
            in case acquire_stream env e max_retries increase 0 retry_delay w1 of
                 (Inl ex, w2) \<Rightarrow> (Inl ex, w2)
               | (Inr retry_delay', w2) \<Rightarrow>
                   (case convert_with_retry env e retry_delay' w2 of
                      (Inl ex, w3) \<Rightarrow> (Inl ex, w3)
                    | (Inr e', w3) \<Rightarrow> finish env e' w3)))"

text \<open>
  \<^verbatim>\<open>self.__song_metadata["image"] = image\<close>: the dictionary is the one the preferences
  and the track object hold, so all three see the new entry.
\<close>

definition store_image :: "easy \<Rightarrow> string \<Rightarrow> easy" where
  "store_image e img =
     (let md = dict_set ''image'' img (e_song_metadata e)
      in e\<lparr>e_song_metadata := md,
           e_prefs := (e_prefs e)\<lparr>p_song_metadata := md\<rparr>,
           e_c_track := (e_c_track e)\<lparr>t_tags := md\<rparr>\<rparr>)"

text \<open>
  \<^verbatim>\<open>easy_dw\<close>: the cover image is fetched and stored in the metadata, the
  \<^verbatim>\<open>progress\<close> event is reported, \<^verbatim>\<open>download_try\<close> runs and its exception is raised
  again, then the tags are written.
\<close>

definition easy_dw :: "env \<Rightarrow> easy \<Rightarrow> world \<Rightarrow> (exn + track) \<times> world" where
  "easy_dw env e w =
     (case map_of (e_song_metadata e) ''image'' of
        None \<Rightarrow> (Inl (KeyError ''image''), w)
      | Some pic \<Rightarrow>
          (case fetch (request env) pic w of
             (Inl ex, w0) \<Rightarrow> (Inl ex, w0)
           | (Inr img, w0) \<Rightarrow>
               (let e1 = store_image e img;
                    w1 = report_progress
                           (base_event TrackEv Progress (song_of (e_song_metadata e1))) w0
                in case download_try env e1 w1 of
                     (Inl ex, w2) \<Rightarrow> (Inl ex, w2)
                   | (Inr e2, w2) \<Rightarrow>
                       (case write_tags env (MTrack (e_c_track e2)) w2 of
                          (Inl ex, w3) \<Rightarrow> (Inl ex, w3)
                        | (Inr _, w3) \<Rightarrow> (Inr (e_c_track e2), w3)))))"

section \<open>Batch aggregators\<close>

text \<open>
  A playlist's item descriptor is a metadata dictionary, or the error string left by a
  failed lookup.
\<close>

datatype pl_item = MetaError string | MetaDict metadata

datatype failure = HadIssues nat | FailedWith nat string

record playlist =
  pl_tracks :: "track list"
  pl_zip_path :: "string option"
  failed_track_indices :: "nat list"
  failed_track_errors :: "failure list"

record album =
  al_tracks :: "track list"
  al_zip_path :: "string option"

type_synonym pl_acc = "track list \<times> nat list \<times> failure list"

definition placeholder :: "metadata \<Rightarrow> string option \<Rightarrow> track" where
  "placeholder md i = (Track md None None None None i)\<lparr>success := False\<rparr>"

text \<open>The \<^verbatim>\<open>except Exception\<close> block of the playlist loop.\<close>

definition playlist_failed :: "nat \<Rightarrow> metadata \<Rightarrow> exn \<Rightarrow> pl_acc \<Rightarrow> pl_acc" where
  "playlist_failed n md ex acc =
     (case acc of (tracks, fi, fe) \<Rightarrow>
        (tracks @ [placeholder md (map_of md ''ids'')], fi @ [n],
         fe @ [FailedWith n (str_exn ex)]))"

definition m3u_path :: "preferences \<Rightarrow> string \<Rightarrow> path" where
  "m3u_path prefs playlist_name = (p_output_dir prefs @ ''/playlists'', playlist_name @ ''.m3u'')"

text \<open>The header is written when the playlist file does not exist yet; then one line.\<close>

definition m3u_append :: "path \<Rightarrow> path \<Rightarrow> world \<Rightarrow> world" where
  "m3u_append mp sp w =
     (let w1 = makedirs (fst mp) w;
          old = (case map_of (m3u w1) mp of None \<Rightarrow> [Header] | Some ls \<Rightarrow> ls)
      in w1\<lparr>m3u := (mp, old @ [Entry sp]) # delete_entry mp (m3u w1)\<rparr>)"

text \<open>The request descriptor of one item of a playlist (\<^verbatim>\<open>c_preferences\<close>).\<close>

definition playlist_preferences :: "preferences \<Rightarrow> metadata \<Rightarrow> string \<Rightarrow> nat \<Rightarrow> preferences" where
  "playlist_preferences prefs md i n = prefs\<lparr>p_ids := i, p_song_metadata := md, p_track_number := n\<rparr>"

text \<open>
  The body of the playlist loop for one metadata dictionary, \<open>n\<close> its track number.
  Everything is inside the \<^verbatim>\<open>try\<close>: the lookup of \<^verbatim>\<open>ids\<close>, \<^verbatim>\<open>easy_dw\<close>, the
  \<^verbatim>\<open>append\<close>, the log line of a result without success (it reads the keys
  \<^verbatim>\<open>music\<close> and \<^verbatim>\<open>artist\<close>), and the write to the playlist file.
\<close>

definition playlist_track ::
  "env \<Rightarrow> preferences \<Rightarrow> string \<Rightarrow> nat \<Rightarrow> metadata \<Rightarrow> pl_acc \<Rightarrow> world \<Rightarrow> pl_acc \<times> world" where
  "playlist_track env prefs playlist_name n md acc w =
     (case map_of md ''ids'' of
        None \<Rightarrow> (playlist_failed n md (KeyError ''ids'') acc, w)
      | Some i \<Rightarrow>
          (let c_preferences = playlist_preferences prefs md i n
           in case easy_dw env (EASY_DW env c_preferences (Some PPlaylist)) w of
                (Inl ex, w1) \<Rightarrow> (playlist_failed n md ex acc, w1)
              | (Inr t, w1) \<Rightarrow>
                  (case acc of (tracks, fi, fe) \<Rightarrow>
                     if success t
                     then (case song_path t of
                             None \<Rightarrow> ((tracks @ [t], fi, fe), w1)
                           | Some sp \<Rightarrow>
                               if truthy sp
                               then (case m3u_fault env n of
                                       Some ex \<Rightarrow>
                                         (playlist_failed n md ex (tracks @ [t], fi, fe), w1)
                                     | None \<Rightarrow>
                                         ((tracks @ [t], fi, fe),
                                          m3u_append (m3u_path prefs playlist_name) sp w1))
                               else ((tracks @ [t], fi, fe), w1))
                     else (case map_of md ''music'' of
                             None \<Rightarrow>
                               (playlist_failed n md (KeyError ''music'') (tracks @ [t], fi, fe),
                                w1)
                           | Some _ \<Rightarrow>
                               (case map_of md ''artist'' of
                                  None \<Rightarrow>
                                    (playlist_failed n md (KeyError ''artist'')
                                       (tracks @ [t], fi, fe), w1)
                                | Some _ \<Rightarrow>
                                    ((tracks @ [t], fi @ [n], fe @ [HadIssues n]), w1))))))"

text \<open>
  \<^verbatim>\<open>for idx, c_song_metadata in enumerate(...)\<close>: an item that is a string is skipped
  with \<^verbatim>\<open>continue\<close>.
\<close>

fun playlist_loop ::
  "env \<Rightarrow> preferences \<Rightarrow> string \<Rightarrow> nat \<Rightarrow> pl_item list \<Rightarrow> pl_acc \<Rightarrow> world \<Rightarrow> pl_acc \<times> world" where
  "playlist_loop env prefs playlist_name idx [] acc w = (acc, w)"
| "playlist_loop env prefs playlist_name idx (MetaError s # its) acc w =
     playlist_loop env prefs playlist_name (idx + 1) its acc w"
| "playlist_loop env prefs playlist_name idx (MetaDict md # its) acc w =
     (case playlist_track env prefs playlist_name (idx + 1) md acc w of
        (acc', w') \<Rightarrow> playlist_loop env prefs playlist_name (idx + 1) its acc' w')"

text \<open>
  \<^verbatim>\<open>DW_PLAYLIST.dw\<close>; \<open>json_title\<close> is the \<^verbatim>\<open>title\<close> entry of the playlist's JSON
  data. The archive itself is not part of the file system of the model.
\<close>

definition DW_PLAYLIST_dw ::
  "env \<Rightarrow> preferences \<Rightarrow> string option \<Rightarrow> pl_item list \<Rightarrow> world \<Rightarrow> (exn + playlist) \<times> world" where
  "DW_PLAYLIST_dw env prefs json_title items w =
     (let playlist_name = (case json_title of None \<Rightarrow> ''Unknown Playlist'' | Some t \<Rightarrow> t);
          w1 = report_progress (base_event PlaylistEv Initializing None) w
      in case playlist_loop env prefs playlist_name 0 items ([], [], []) w1 of
           ((tracks, fi, fe), w2) \<Rightarrow>
             (let zip_path =
                    (if p_make_zip prefs \<and> list_ex success tracks
                     then (case json_title of
                             None \<Rightarrow> None
                           | Some t \<Rightarrow>
                               (case zip_fault env of
                                  Some ex \<Rightarrow> None
                                | None \<Rightarrow>
                                    Some (p_output_dir prefs @ ''/playlist '' @ t @ ''.zip'')))
                     else None);
                  w3 = report_progress
                         ((base_event PlaylistEv Done None)
                            \<lparr>ev_successful := Some (length (filter success tracks)),
                             ev_failed := Some (length fi)\<rparr>) w2
              in (Inr \<lparr>pl_tracks = tracks, pl_zip_path = zip_path,
                       failed_track_indices = fi, failed_track_errors = fe\<rparr>, w3)))"

text \<open>
  An album's metadata: the entries that are not lists, the entries that are lists (one
  element per track) and the number of tracks.
\<close>

record album_metadata =
  am_scalars :: metadata
  am_lists :: "(string \<times> string list) list"
  am_nb_tracks :: nat

text \<open>\<^verbatim>\<open>c_song_metadata[key] = self.__song_metadata[key][a]\<close> for every list entry.\<close>

fun track_metadata :: "(string \<times> string list) list \<Rightarrow> nat \<Rightarrow> metadata \<Rightarrow> exn + metadata" where
  "track_metadata [] a md = Inr md"
| "track_metadata ((k, vs) # rest) a md =
     (if a < length vs then track_metadata rest a (dict_set k (vs ! a) md)
      else Inl IndexError)"

text \<open>The request descriptor of one track of an album (\<^verbatim>\<open>c_preferences\<close>).\<close>

definition album_preferences :: "preferences \<Rightarrow> metadata \<Rightarrow> string \<Rightarrow> nat \<Rightarrow> preferences" where
  "album_preferences prefs c_song_metadata i a =
     prefs\<lparr>p_song_metadata := dict_set ''album_id'' (p_ids prefs) c_song_metadata,
           p_ids := i, p_track_number := a + 1,
           p_link := ''https://open.spotify.com/track/'' @ i\<rparr>"

text \<open>
  The body of the album loop for track index \<open>a\<close>. Only \<^verbatim>\<open>TrackNotFound\<close> is caught
  around \<^verbatim>\<open>download_try\<close>.
\<close>

definition album_track ::
  "env \<Rightarrow> preferences \<Rightarrow> album_metadata \<Rightarrow> metadata \<Rightarrow> nat \<Rightarrow> world \<Rightarrow> (exn + track) \<times> world" where
  "album_track env prefs am scalars a w =
     (case track_metadata (am_lists am) a scalars of
        Inl ex \<Rightarrow> (Inl ex, w)
      | Inr c_song_metadata \<Rightarrow>
          (case map_of c_song_metadata ''music'' of
             None \<Rightarrow> (Inl (KeyError ''music''), w)
           | Some song_name \<Rightarrow>
          (case map_of c_song_metadata ''artist'' of
             None \<Rightarrow> (Inl (KeyError ''artist''), w)
           | Some artist_name \<Rightarrow>
          (case map_of c_song_metadata ''album'' of
             None \<Rightarrow> (Inl (KeyError ''album''), w)
           | Some album_name \<Rightarrow>
          (case map_of c_song_metadata ''ids'' of
             None \<Rightarrow> (Inl (KeyError ''ids''), w)
           | Some i \<Rightarrow>
               (let c_preferences = album_preferences prefs c_song_metadata i a
                in case download_try env (EASY_DW env c_preferences (Some PAlbum)) w of
                     (Inr e', w') \<Rightarrow> (Inr (e_c_track e'), w')
                   | (Inl TrackNotFound, w') \<Rightarrow>
                       (Inr (placeholder c_song_metadata None), w')
                   | (Inl ex, w') \<Rightarrow> (Inl ex, w')))))))"

fun album_loop ::
  "env \<Rightarrow> preferences \<Rightarrow> album_metadata \<Rightarrow> metadata \<Rightarrow> nat list \<Rightarrow> track list \<Rightarrow> world \<Rightarrow>
   (exn + track list) \<times> world" where
  "album_loop env prefs am scalars [] tracks w = (Inr tracks, w)"
| "album_loop env prefs am scalars (a # rest) tracks w =
     (case album_track env prefs am scalars a w of
        (Inl ex, w') \<Rightarrow> (Inl ex, w')
      | (Inr t, w') \<Rightarrow> album_loop env prefs am scalars rest (tracks @ [t]) w')"

text \<open>\<^verbatim>\<open>key in self.__song_metadata\<close>, whichever kind of entry it is.\<close>

definition has_key :: "album_metadata \<Rightarrow> string \<Rightarrow> bool" where
  "has_key am k = (map_of (am_scalars am) k \<noteq> None \<or> map_of (am_lists am) k \<noteq> None)"

text \<open>
  \<^verbatim>\<open>DW_ALBUM.dw\<close>. \<open>zip_name\<close> stands for the name \<^verbatim>\<open>create_zip\<close> returns.
\<close>

definition DW_ALBUM_dw ::
  "env \<Rightarrow> preferences \<Rightarrow> album_metadata \<Rightarrow> string \<Rightarrow> world \<Rightarrow> (exn + album) \<times> world" where
  "DW_ALBUM_dw env prefs am zip_name w =
     (let w0 = report_progress (base_event AlbumEv Initializing None) w in
      case map_of (am_scalars am) ''image'' of
        None \<Rightarrow> (Inl (KeyError ''image''), w0)
      | Some pic \<Rightarrow>
      (case fetch (request env) pic w0 of
         (Inl ex, w1) \<Rightarrow> (Inl ex, w1)
       | (Inr img, w1) \<Rightarrow>
      (let scalars = dict_set ''image'' img (am_scalars am) in
       if has_key am ''album''
       then
      (if has_key am ''upc''
       then
      (case album_loop env prefs am scalars [0..<am_nb_tracks am] [] w1 of
         (Inl ex, w2) \<Rightarrow> (Inl ex, w2)
       | (Inr tracks, w2) \<Rightarrow>
           (let done = report_progress (base_event AlbumEv Done None) in
            if p_make_zip prefs
            then (case tracks of
                    [] \<Rightarrow> (Inl IndexError, w2)
                  | t # _ \<Rightarrow>
                      (case zip_fault env of
                         Some ex \<Rightarrow> (Inl ex, w2)
                       | None \<Rightarrow>
                           (Inr \<lparr>al_tracks = tracks, al_zip_path = Some zip_name\<rparr>, done w2)))
            else (Inr \<lparr>al_tracks = tracks, al_zip_path = None\<rparr>, done w2)))
       else (Inl (KeyError ''upc''), w1))
       else (Inl (KeyError ''album''), w1))))"

section \<open>Scenarios and auxiliary notions\<close>

text \<open>Concrete inputs on which the properties below are evaluated.\<close>

definition song_a :: path where
  "song_a = (''out/Artist/Album'', ''01 - Song.ogg'')"

definition song_b :: path where
  "song_b = (''out/Artist/Album'', ''02 - Other.ogg'')"

definition raw_file :: "string \<Rightarrow> afile" where
  "raw_file d = \<lparr>kind = Raw, tags = [], payload = d\<rparr>"

definition tagged_ogg :: "string \<Rightarrow> string \<Rightarrow> string \<Rightarrow> afile" where
  "tagged_ogg title album_name d =
     \<lparr>kind = Ogg, tags = [(''title'', title), (''album'', album_name)], payload = d\<rparr>"

definition empty_world :: world where
  "empty_world =
     \<lparr>files = [], dirs = [], m3u = [], active = {}, current = None, cleanup_lock = False,
      global_retry_count = 0, events = [], sleeps = [], loads = 0, requests = []\<rparr>"

text \<open>
  The state between \<^verbatim>\<open>register_active_download\<close> and \<^verbatim>\<open>open\<close> in the write stage of
  the second item of a batch: the first item's file is complete, the second is registered
  and not yet created.
\<close>

definition registered_not_created :: world where
  "registered_not_created =
     register_active_download song_b
       (empty_world\<lparr>files := [(song_a, tagged_ogg ''Song'' ''Album'' ''aaaa'')],
                    dirs := [''out/Artist/Album'']\<rparr>)"

text \<open>The same batch a moment later: the second file is partly written.\<close>

definition during_write :: world where
  "during_write = put_file song_b (raw_file ''bb'') registered_not_created"

text \<open>
  An environment in which every collaborator succeeds: the path is
  \<^verbatim>\<open><output_dir>/<album>/<music>.ogg\<close>, the stream is the four bytes \<open>data\<close>.
\<close>

definition quiet_env :: env where
  "quiet_env =
     \<lparr>set_path = (\<lambda>md prefs. (p_output_dir prefs @ ''/'' @ get_or md ''album'' ''Unknown'',
                                 get_or md ''music'' ''Unknown'' @ ''.ogg'')),
      f_format = ''.ogg'',
      s_quality = ''NORMAL'',
      load_track = (\<lambda>i n. WriteOk ''data''),
      ffmpeg = (\<lambda>p n. FfOk),
      parse_format_string = (\<lambda>s. Inr (None, None)),
      transcode = (\<lambda>p f b. Inl (Failure ''no encoder'')),
      request = (\<lambda>url. Inr ''jpeg''),
      listdir_fault = (\<lambda>d. None),
      media_fault = (\<lambda>m. None),
      tag_fault = (\<lambda>p. None),
      m3u_fault = (\<lambda>n. None),
      zip_fault = None\<rparr>"

definition song_md :: metadata where
  "song_md =
     [(''music'', ''Song''), (''album'', ''Album''), (''artist'', ''Artist''),
      (''ids'', ''id1''), (''image'', ''http://img/1'')]"

definition base_prefs :: preferences where
  "base_prefs =
     \<lparr>p_ids = ''id1'', p_link = ''https://open.spotify.com/track/id1'', p_output_dir = ''out'',
      p_song_metadata = song_md, p_convert_to = None, p_initial_retry_delay = None,
      p_retry_delay_increase = None, p_max_retries = None, p_track_number = 0,
      p_make_zip = False\<rparr>"

definition song_path1 :: path where
  "song_path1 = (''out/Album'', ''Song.ogg'')"

text \<open>The output directory after an earlier run: the item's file, with another artist tag.\<close>

definition populated :: world where
  "populated =
     empty_world
       \<lparr>files := [(song_path1,
                   \<lparr>kind = Ogg,
                    tags = [(''title'', ''Song''), (''artist'', ''Somebody''), (''album'', ''Album'')],
                    payload = ''data''\<rparr>)],
        dirs := [''out/Album'']\<rparr>"

text \<open>A directory that holds only a damaged file and a file of an unsupported format.\<close>

definition damaged :: world where
  "damaged =
     empty_world
       \<lparr>files := [((''out/Album'', ''Song.ogg''), \<lparr>kind = Corrupt, tags = [], payload = ''x''\<rparr>),
                  ((''out/Album'', ''Song.wav''),
                   \<lparr>kind = Unknown, tags = [(''title'', ''Song''), (''album'', ''Album'')],
                    payload = ''y''\<rparr>)],
        dirs := [''out/Album'']\<rparr>"

text \<open>A tag library that fails on every file, and an unreadable directory listing.\<close>

definition faulty_tag_env :: env where
  "faulty_tag_env = quiet_env\<lparr>tag_fault := (\<lambda>p. Some (Failure ''malformed artwork URL''))\<rparr>"

text \<open>A request whose metadata has neither title nor album, and its output directory.\<close>

definition untitled_md :: metadata where
  "untitled_md = [(''artist'', ''Artist''), (''ids'', ''id1''), (''image'', ''http://img/1'')]"

definition untitled_prefs :: preferences where
  "untitled_prefs = base_prefs\<lparr>p_song_metadata := untitled_md\<rparr>"

definition damaged_unknown :: world where
  "damaged_unknown =
     empty_world
       \<lparr>files := [((''out/Unknown'', ''old.ogg''), \<lparr>kind = Corrupt, tags = [], payload = ''x''\<rparr>)],
        dirs := [''out/Unknown'']\<rparr>"

text \<open>The value of a call that returned, \<open>None\<close> for one that raised.\<close>

definition projr_opt :: "'a + 'b \<Rightarrow> 'b option" where
  "projr_opt r = (case r of Inl _ \<Rightarrow> None | Inr x \<Rightarrow> Some x)"

text \<open>A streaming session that fails on every request, and a request with three retries.\<close>

definition offline_env :: env where
  "offline_env = quiet_env\<lparr>load_track := (\<lambda>i n. LoadFails (Failure ''connection reset''))\<rparr>"

definition three_prefs :: preferences where
  "three_prefs = base_prefs\<lparr>p_max_retries := Some 3, p_initial_retry_delay := Some 10,
                            p_retry_delay_increase := Some 5\<rparr>"

text \<open>The same request with a negative initial delay.\<close>

definition negative_prefs :: preferences where
  "negative_prefs = three_prefs\<lparr>p_initial_retry_delay := Some (- 1)\<rparr>"




text \<open>A stream whose write to disk fails after two bytes.\<close>

definition write_fails_env :: env where
  "write_fails_env =
     quiet_env\<lparr>load_track := (\<lambda>i n. WriteFails (Failure ''disk full'') (Some ''da''))\<rparr>"

text \<open>An encoder that exits with an error status and writes nothing.\<close>

definition ffmpeg_fails_env :: env where
  "ffmpeg_fails_env = quiet_env\<lparr>ffmpeg := (\<lambda>p n. FfErr None)\<rparr>"

text \<open>The state right after the write stage: the raw stream is at the resolved path.\<close>

definition downloaded :: world where
  "downloaded = empty_world\<lparr>files := [(song_path1, raw_file ''data'')], dirs := [''out/Album'']\<rparr>"

text \<open>A batch of two items; the stream of the second one can never be acquired.\<close>

definition flaky_env :: env where
  "flaky_env =
     quiet_env\<lparr>load_track := (\<lambda>i n. if i = ''id2'' then LoadFails (Failure ''connection reset'')
                                    else WriteOk ''data'')\<rparr>"

definition two_track_album :: album_metadata where
  "two_track_album =
     \<lparr>am_scalars = [(''album'', ''Album''), (''artist'', ''Artist''), (''upc'', ''0001''),
                    (''image'', ''http://img/1'')],
      am_lists = [(''music'', [''Song'', ''Other'']), (''ids'', [''id1'', ''id2''])],
      am_nb_tracks = 2\<rparr>"

definition other_md :: metadata where
  "other_md =
     [(''music'', ''Other''), (''album'', ''Album''), (''artist'', ''Artist''),
      (''ids'', ''id2''), (''image'', ''http://img/1'')]"




definition track_flags :: "track \<Rightarrow> bool \<times> bool \<times> bool" where
  "track_flags t = (success t, was_skipped t, song_path t \<noteq> None)"












section \<open>Properties\<close>

subsection \<open>File system and registry\<close>

lemma map_of_delete_entry:
  "map_of (delete_entry p xs) q = (if q = p then None else map_of xs q)"
  by (induction xs) (auto simp: delete_entry_def)

lemma files_unregister: "files (unregister_active_download p w) = files w"
  by (simp add: unregister_active_download_def)

subsection \<open>Cleanup of the active item\<close>

text \<open>
  \<^verbatim>\<open>__convert_audio\<close> registers the output path and nothing unregisters it: after an
  item has completed, the pointer names the finished file until the next item registers
  its own path, and a cleanup in between removes the finished file.
\<close>

lemma cleanup_after_completed_item:
  "map fst (files (snd (download_try quiet_env (EASY_DW quiet_env base_prefs None) empty_world))) =
     [song_path1] \<and>
   current (snd (download_try quiet_env (EASY_DW quiet_env base_prefs None) empty_world)) =
     Some song_path1 \<and>
   files (cleanup_active_downloads
            (snd (download_try quiet_env (EASY_DW quiet_env base_prefs None) empty_world))) = []"
  by code_simp

text \<open>
  C9, as stated, fails in its last part: when the file at the current pointer does not
  exist (the signal arrives before the file is created), cleanup leaves the pointer and
  the set of active paths as they were.
\<close>

theorem cleanup_registry_not_cleared:
  "current (cleanup_active_downloads registered_not_created) = Some song_b \<and>
   active (cleanup_active_downloads registered_not_created) = {song_b}"
  by (simp add: registered_not_created_def empty_world_def register_active_download_def
        cleanup_active_downloads_def exists_file_def truthy_def song_a_def song_b_def)

text \<open>
  C9, amended. Cleanup changes the file system at most at the path of the current pointer:
  that file is gone afterwards, every other path holds what it held. The registry changes
  only when that file existed: then its path leaves the active set and, if it was a member
  of the set, the pointer is cleared; the other active paths stay registered. When the
  lock is held nothing happens.
\<close>

theorem cleanup_deletes_only_current:
  "map_of (files (cleanup_active_downloads w)) q =
     (if \<not> cleanup_lock w \<and> current w = Some q \<and> truthy q then None
      else map_of (files w) q) \<and>
   active (cleanup_active_downloads w) =
     (case current w of
        None \<Rightarrow> active w
      | Some p \<Rightarrow> if \<not> cleanup_lock w \<and> truthy p \<and> exists_file w p then active w - {p}
                  else active w) \<and>
   current (cleanup_active_downloads w) =
     (case current w of
        None \<Rightarrow> None
      | Some p \<Rightarrow> if \<not> cleanup_lock w \<and> truthy p \<and> exists_file w p \<and> p \<in> active w
                  then None else Some p) \<and>
   cleanup_lock (cleanup_active_downloads w) = cleanup_lock w \<and>
   signal_handler w = cleanup_active_downloads w"
proof -
  have fs: "map_of (files (cleanup_active_downloads w)) q =
     (if \<not> cleanup_lock w \<and> current w = Some q \<and> truthy q then None
      else map_of (files w) q)"
    by (auto simp: cleanup_active_downloads_def Let_def exists_file_def remove_file_def
          files_unregister map_of_delete_entry split: option.splits)
  have reg: "active (cleanup_active_downloads w) =
     (case current w of
        None \<Rightarrow> active w
      | Some p \<Rightarrow> if \<not> cleanup_lock w \<and> truthy p \<and> exists_file w p then active w - {p}
                  else active w)"
    by (auto simp: cleanup_active_downloads_def Let_def exists_file_def remove_file_def
          unregister_active_download_def split: option.splits)
  have cur: "current (cleanup_active_downloads w) =
     (case current w of
        None \<Rightarrow> None
      | Some p \<Rightarrow> if \<not> cleanup_lock w \<and> truthy p \<and> exists_file w p \<and> p \<in> active w
                  then None else Some p)"
    by (auto simp: cleanup_active_downloads_def Let_def exists_file_def remove_file_def
          unregister_active_download_def split: option.splits)
  have lock: "cleanup_lock (cleanup_active_downloads w) = cleanup_lock w"
    by (auto simp: cleanup_active_downloads_def Let_def split: option.splits)
  show ?thesis
    using fs reg cur lock by (simp add: signal_handler_def)
qed

text \<open>
  A termination signal during the write of the second item removes the second file only;
  the completed first file keeps its bytes.
\<close>

theorem cleanup_deletes_only_current_witness:
  "map_of (files (cleanup_active_downloads during_write)) song_b = None \<and>
   map_of (files (cleanup_active_downloads during_write)) song_a =
     Some (tagged_ogg ''Song'' ''Album'' ''aaaa'') \<and>
   current (cleanup_active_downloads during_write) = None \<and>
   active (cleanup_active_downloads during_write) = {}"
proof -
  have w: "cleanup_lock during_write = False" "current during_write = Some song_b"
    "active during_write = {song_b}" "truthy song_b" "exists_file during_write song_b"
    "map_of (files during_write) song_a = Some (tagged_ogg ''Song'' ''Album'' ''aaaa'')"
    "song_a \<noteq> song_b"
    by (simp_all add: during_write_def registered_not_created_def empty_world_def
          register_active_download_def put_file_def exists_file_def truthy_def
          delete_entry_def song_a_def song_b_def)
  show ?thesis
    using cleanup_deletes_only_current [of during_write song_b]
      cleanup_deletes_only_current [of during_write song_a] w
    by simp
qed

lemma map_of_put_file:
  "map_of (files (put_file p f w)) q = (if q = p then Some f else map_of (files w) q)"
  by (simp add: put_file_def map_of_delete_entry)

lemma exists_put_file: "exists_file (put_file p f w) q = (q = p \<or> exists_file w q)"
  by (simp add: exists_file_def map_of_put_file)

lemma exists_remove_file: "exists_file (remove_file p w) q = (q \<noteq> p \<and> exists_file w q)"
  by (auto simp: exists_file_def remove_file_def map_of_delete_entry)

subsection \<open>The tag writer\<close>

lemma fst_swallow: "fst (swallow r) = Inr ()"
  by (cases r) (auto simp: swallow_def split: sum.splits)

lemma snd_swallow: "snd (swallow r) = snd r"
  by (cases r) (auto simp: swallow_def split: sum.splits)

lemma exists_fetch: "exists_file (snd (fetch req url w)) q = exists_file w q"
  by (simp add: fetch_def exists_file_def)

lemma files_picture_data: "files (snd (picture_data env md w)) = files w"
  by (auto simp: picture_data_def fetch_def split: option.splits sum.splits)

lemma exists_save_tags:
  "exists_file (snd (save_tags env song f r w)) q = (q = song \<or> exists_file w q)"
  by (auto simp: save_tags_def exists_file_def map_of_put_file split: sum.splits option.splits)

lemma exists_write_flac_body:
  "exists_file (snd (write_flac_body env song data w)) q = exists_file w q"
proof (cases "map_of (files w) song")
  case None
  then show ?thesis by (simp add: write_flac_body_def)
next
  case (Some f)
  obtain pic w1 where p: "picture_data env data w = (pic, w1)"
    by (cases "picture_data env data w")
  have "files w1 = files w"
    using files_picture_data [of env data w] p by simp
  then have "exists_file w1 q = exists_file w q" "exists_file w1 song"
    using Some by (simp_all add: exists_file_def)
  then show ?thesis
    using Some p by (auto simp: write_flac_body_def exists_save_tags)
qed

lemma exists_write_ogg_body:
  "exists_file (snd (write_ogg_body env song data w)) q = exists_file w q"
proof (cases "map_of (files w) song")
  case None
  then show ?thesis by (simp add: write_ogg_body_def)
next
  case (Some f)
  obtain pic w1 where p: "picture_data env data w = (pic, w1)"
    by (cases "picture_data env data w")
  have "files w1 = files w"
    using files_picture_data [of env data w] p by simp
  then have "exists_file w1 q = exists_file w q" "exists_file w1 song" "exists_file w song"
    using Some by (simp_all add: exists_file_def)
  then show ?thesis
    using Some p
    by (auto simp: write_ogg_body_def exists_save_tags split: sum.splits)
qed

lemma exists_write_mp3_body:
  "exists_file (snd (write_mp3_body env song data w)) q = exists_file w q"
proof (cases "map_of (files w) song")
  case None
  then show ?thesis by (simp add: write_mp3_body_def)
next
  case (Some f)
  then have "exists_file w song"
    by (simp add: exists_file_def)
  then show ?thesis
    using Some
    by (auto simp: write_mp3_body_def exists_save_tags exists_put_file split: option.splits)
qed

lemma exists_write_tags_body:
  "exists_file (snd (write_tags_body env m w)) q = exists_file w q"
  by (auto simp: write_tags_body_def write_flac_def write_ogg_def write_mp3_def snd_swallow
        exists_write_flac_body exists_write_ogg_body exists_write_mp3_body
        split: option.splits media.splits)

text \<open>
  C8. For every media object, every state of the file system and every fault of the tag
  library, \<^verbatim>\<open>write_tags\<close> returns normally, and every file that existed before still
  exists afterwards.
\<close>

theorem write_tags_never_raises:
  "fst (write_tags env m w) = Inr () \<and>
   exists_file (snd (write_tags env m w)) q = exists_file w q"
  by (simp add: write_tags_def fst_swallow snd_swallow exists_write_tags_body)

theorem write_tags_never_raises_witness:
  "fst (write_tags faulty_tag_env (MTrack (make_track faulty_tag_env base_prefs song_md song_path1))
          populated) = Inr () \<and>
   exists_file (snd (write_tags faulty_tag_env
                      (MTrack (make_track faulty_tag_env base_prefs song_md song_path1)) populated))
     song_path1"
proof -
  have "exists_file populated song_path1"
    by (simp add: populated_def empty_world_def exists_file_def)
  then show ?thesis
    using write_tags_never_raises
      [of faulty_tag_env "MTrack (make_track faulty_tag_env base_prefs song_md song_path1)"
          populated song_path1]
    by simp
qed

subsection \<open>The existence check\<close>

lemma read_metadata_missing:
  "map_of (files w) fp = None \<Longrightarrow> read_metadata w fp = (None, None)"
  by (simp add: read_metadata_def)

lemma read_metadata_unreadable:
  "map_of (files w) fp = Some f \<Longrightarrow> kind f = Corrupt \<or> kind f = Unknown \<or> kind f = Raw \<Longrightarrow>
   read_metadata w fp = (None, None)"
  by (auto simp: read_metadata_def)

lemma read_metadata_unsupported:
  "\<not> endswith (snd fp) ''.mp3'' \<Longrightarrow> \<not> endswith (snd fp) ''.ogg'' \<Longrightarrow>
   \<not> endswith (snd fp) ''.flac'' \<Longrightarrow> \<not> endswith (snd fp) ''.m4a'' \<Longrightarrow>
   read_metadata w fp = (None, None)"
  by (simp add: read_metadata_def split: option.splits)

text \<open>
  C10, as stated, fails when the request has neither title nor album: the pair
  \<^verbatim>\<open>(None, None)\<close> that \<^verbatim>\<open>read_metadata\<close> returns for a damaged file then equals the
  pair asked for, and the damaged file counts as the track.
\<close>

theorem track_exists_none_matches_damaged:
  "read_metadata damaged_unknown (''out/Unknown'', ''old.ogg'') = (None, None) \<and>
   track_exists quiet_env (EASY_DW quiet_env untitled_prefs None) damaged_unknown
     (map_of untitled_md ''music'') (map_of untitled_md ''album'') = True"
  by code_simp

text \<open>
  C10, amended. \<^verbatim>\<open>track_exists\<close> returns a boolean for every input (it is a total
  function with no error result). When the requested title and album are not both absent,
  it returns \<^verbatim>\<open>False\<close> whenever the final directory is missing, or cannot be listed, or
  holds only files from which \<^verbatim>\<open>read_metadata\<close> gets \<^verbatim>\<open>(None, None)\<close>.
\<close>

theorem track_exists_errors_mean_absent:
  assumes "title \<noteq> None \<or> album \<noteq> None"
    and "final_dir = fst (e_song_path (ensure_song_path env e))"
    and "final_dir \<notin> set (dirs w) \<or> listdir_fault env final_dir \<noteq> None \<or>
         (\<forall>name \<in> set (listdir w final_dir). read_metadata w (final_dir, name) = (None, None))"
  shows "track_exists env e w title album = False"
proof -
  have no_match: "(None, None) \<noteq> (title, album)"
    using assms(1) by auto
  show ?thesis
  proof (cases "final_dir \<in> set (dirs w)")
    case False
    then show ?thesis
      using assms(2) by (simp add: track_exists_def track_exists_body_def)
  next
    case in_dirs: True
    show ?thesis
    proof (cases "listdir_fault env final_dir")
      case (Some ex)
      then show ?thesis
        using assms(2) in_dirs by (simp add: track_exists_def track_exists_body_def)
    next
      case None
      with assms(3) in_dirs
      have "\<forall>name \<in> set (listdir w final_dir). read_metadata w (final_dir, name) = (None, None)"
        by simp
      with no_match
      have "\<not> list_ex (\<lambda>name. is_audio_name name \<and>
                 read_metadata w (final_dir, name) = (title, album)) (listdir w final_dir)"
        by (auto simp: list_ex_iff)
      then show ?thesis
        using assms(2) in_dirs None by (simp add: track_exists_def track_exists_body_def)
    qed
  qed
qed

theorem track_exists_errors_mean_absent_witness:
  "track_exists quiet_env (EASY_DW quiet_env base_prefs None) damaged
     (Some ''Song'') (Some ''Album'') = False"
proof -
  have dir: "''out/Album'' = fst (e_song_path (ensure_song_path quiet_env
                (EASY_DW quiet_env base_prefs None)))"
    by code_simp
  have names: "listdir damaged ''out/Album'' = [''Song.ogg'', ''Song.wav'']"
    by code_simp
  have r1: "read_metadata damaged (''out/Album'', ''Song.ogg'') = (None, None)"
    by code_simp
  have r2: "read_metadata damaged (''out/Album'', ''Song.wav'') = (None, None)"
    by code_simp
  have all: "\<forall>name \<in> set (listdir damaged ''out/Album'').
               read_metadata damaged (''out/Album'', name) = (None, None)"
    using r1 r2 by (simp add: names)
  show ?thesis
    using track_exists_errors_mean_absent
      [of "Some ''Song''" "Some ''Album''" "''out/Album''" quiet_env
          "EASY_DW quiet_env base_prefs None" damaged] dir all
    by simp
qed

subsection \<open>Skipping an item that is already present\<close>

lemma track_exists_match:
  assumes "final_dir = fst (e_song_path (ensure_song_path env e))"
    and "final_dir \<in> set (dirs w)"
    and "listdir_fault env final_dir = None"
    and "name \<in> set (listdir w final_dir)"
    and "is_audio_name name"
    and "read_metadata w (final_dir, name) = (title, album)"
  shows "track_exists env e w title album"
proof -
  have "list_ex (\<lambda>n. is_audio_name n \<and> read_metadata w (final_dir, n) = (title, album))
          (listdir w final_dir)"
    using assms(4-6) by (auto simp: list_ex_iff)
  then show ?thesis
    using assms(1-3) by (simp add: track_exists_def track_exists_body_def)
qed

text \<open>
  The orchestrator itself, as the album loop calls it. When the final directory holds an
  audio file whose embedded title and album are the requested ones, \<^verbatim>\<open>download_try\<close>
  returns the result with \<open>success = False\<close> and \<open>was_skipped = True\<close>, and the only
  effect is one \<^verbatim>\<open>skipped\<close> event: no file is touched, no stream and no URL is
  requested, nothing is registered, no sleep happens.
\<close>

lemma download_try_skips_existing:
  assumes "final_dir = fst (e_song_path (ensure_song_path env e))"
    and "final_dir \<in> set (dirs w)"
    and "listdir_fault env final_dir = None"
    and "name \<in> set (listdir w final_dir)"
    and "is_audio_name name"
    and "read_metadata w (final_dir, name) =
           (map_of (e_song_metadata e) ''music'', map_of (e_song_metadata e) ''album'')"
  shows "(\<exists>e'. fst (download_try env e w) = Inr e' \<and> \<not> success (e_c_track e') \<and>
               was_skipped (e_c_track e')) \<and>
         snd (download_try env e w) =
           w\<lparr>events := events w @
                [base_event TrackEv Skipped (map_of (e_song_metadata e) ''music'')]\<rparr>"
proof -
  have "track_exists env e w (map_of (e_song_metadata e) ''music'')
          (map_of (e_song_metadata e) ''album'')"
    using assms by (rule track_exists_match)
  then show ?thesis
    by (simp add: download_try_def Let_def report_progress_def)
qed

lemma download_try_skips_existing_on_populated:
  "(\<exists>e'. fst (download_try quiet_env (EASY_DW quiet_env base_prefs (Some PAlbum)) populated) = Inr e' \<and>
         \<not> success (e_c_track e') \<and> was_skipped (e_c_track e')) \<and>
   snd (download_try quiet_env (EASY_DW quiet_env base_prefs (Some PAlbum)) populated) =
     populated\<lparr>events := [base_event TrackEv Skipped (Some ''Song'')]\<rparr>"
proof -
  have a1: "''out/Album'' = fst (e_song_path (ensure_song_path quiet_env
              (EASY_DW quiet_env base_prefs (Some PAlbum))))"
    by code_simp
  have a2: "''out/Album'' \<in> set (dirs populated)"
    by code_simp
  have a3: "listdir_fault quiet_env ''out/Album'' = None"
    by code_simp
  have a4: "''Song.ogg'' \<in> set (listdir populated ''out/Album'')"
    by code_simp
  have a5: "is_audio_name ''Song.ogg''"
    by code_simp
  have md: "e_song_metadata (EASY_DW quiet_env base_prefs (Some PAlbum)) = song_md"
    by (simp add: EASY_DW_def Let_def base_prefs_def)
  have a6: "read_metadata populated (''out/Album'', ''Song.ogg'') =
              (map_of (e_song_metadata (EASY_DW quiet_env base_prefs (Some PAlbum))) ''music'',
               map_of (e_song_metadata (EASY_DW quiet_env base_prefs (Some PAlbum))) ''album'')"
    unfolding md by code_simp
  have ev: "events populated = []" "map_of song_md ''music'' = Some ''Song''"
    by (simp_all add: populated_def empty_world_def song_md_def)
  show ?thesis
    using download_try_skips_existing [OF a1 a2 a3 a4 a5 a6] ev
    by (simp add: md)
qed

text \<open>
  C4 at a failing input. The directory holds the item's file, with the requested title and
  album and another artist tag, and the item is run through \<^verbatim>\<open>easy_dw\<close>, as single
  tracks and playlist members are. The result is the skipped one, but \<^verbatim>\<open>easy_dw\<close> has
  fetched the cover image before the existence check and applies \<^verbatim>\<open>write_tags\<close> to
  the resolved path after it: the tags of the existing file are rewritten.
\<close>

theorem easy_dw_retags_skipped_file:
  "read_metadata populated song_path1 = (map_of song_md ''music'', map_of song_md ''album'') \<and>
   map_option track_flags
     (projr_opt (fst (easy_dw quiet_env (EASY_DW quiet_env base_prefs (Some PPlaylist)) populated)))
     = Some (False, True, True) \<and>
   map ev_status
     (events (snd (easy_dw quiet_env (EASY_DW quiet_env base_prefs (Some PPlaylist)) populated)))
     = [Progress, Skipped] \<and>
   requests (snd (easy_dw quiet_env (EASY_DW quiet_env base_prefs (Some PPlaylist)) populated))
     = [''http://img/1''] \<and>
   map_option (\<lambda>f. (map_of (tags f) ''artist'', payload f)) (map_of (files populated) song_path1)
     = Some (Some ''Somebody'', ''data'') \<and>
   map_option (\<lambda>f. (map_of (tags f) ''artist'', payload f))
     (map_of (files (snd (easy_dw quiet_env (EASY_DW quiet_env base_prefs (Some PPlaylist))
                            populated))) song_path1)
     = Some (Some ''Artist'', ''data'') \<and>
   map_of (files (snd (easy_dw quiet_env (EASY_DW quiet_env base_prefs (Some PPlaylist))
                        populated))) song_path1 \<noteq>
   map_of (files populated) song_path1"
  by code_simp

subsection \<open>Retry policy of the acquisition loop\<close>






lemma sleep_negative: "d < 0 \<Longrightarrow> sleep d w = Inl (ValueError ''sleep length must be non-negative'')"
  by (simp add: sleep_def)



text \<open>
  A negative delay is not a sleep length: \<^verbatim>\<open>time.sleep\<close> raises inside the handler of
  the first failure, and that exception leaves \<^verbatim>\<open>download_try\<close> after one attempt.
\<close>

lemma negative_delay_stops_retrying:
  "fst (download_try offline_env (EASY_DW offline_env negative_prefs None) empty_world) =
     Inl (ValueError ''sleep length must be non-negative'') \<and>
   loads (snd (download_try offline_env (EASY_DW offline_env negative_prefs None) empty_world)) = 1"
  by code_simp



subsection \<open>A failed write\<close>

lemma acquire_write_fails_returns:
  assumes "load_track env (p_ids (e_prefs e)) r = WriteFails ex b"
  shows "fst (acquire_stream env e n inc r d w) = Inr d"
  using assms by (subst acquire_stream.simps) (simp add: Let_def)

text \<open>
  C2 at a failing input. The write of the stream fails after two bytes. The inner handler
  deletes the partial file and unregisters the path but does not raise again: the loop is
  left as after a success and the conversion stage runs (twice, with one backoff sleep and
  two \<^verbatim>\<open>error\<close> events, the first with the text of the \<^verbatim>\<open>FileNotFoundError\<close>). What
  reaches the caller is the \<^verbatim>\<open>FileNotFoundError\<close> of \<^verbatim>\<open>os.replace\<close> on the deleted
  file, not the write error, and the stream is not requested again.
\<close>

theorem failed_write_continues_to_conversion:
  "fst (download_try write_fails_env (EASY_DW write_fails_env base_prefs None) empty_world) =
     Inl (FileNotFoundError (quoted ''out/Album/Song.ogg'' @ '' -> '' @
                             quoted ''out/Album/Song.tmp'')) \<and>
   events (snd (download_try write_fails_env (EASY_DW write_fails_env base_prefs None)
                  empty_world)) =
     [\<lparr>ev_type = TrackEv, ev_status = Progress, ev_song = Some ''Song'', ev_error = None,
       ev_retry_count = None, ev_seconds_left = None, ev_successful = None, ev_failed = None\<rparr>,
      \<lparr>ev_type = TrackEv, ev_status = Error, ev_song = Some ''Song'',
       ev_error = Some (''[Errno 2] No such file or directory: '' @
                        quoted ''out/Album/Song.ogg'' @ '' -> '' @ quoted ''out/Album/Song.tmp''),
       ev_retry_count = None, ev_seconds_left = None, ev_successful = None, ev_failed = None\<rparr>,
      \<lparr>ev_type = TrackEv, ev_status = Error, ev_song = Some ''Song'',
       ev_error = Some ''Audio conversion failed after retry'',
       ev_retry_count = None, ev_seconds_left = None, ev_successful = None, ev_failed = None\<rparr>] \<and>
   sleeps (snd (download_try write_fails_env (EASY_DW write_fails_env base_prefs None)
                  empty_world)) = [30] \<and>
   loads (snd (download_try write_fails_env (EASY_DW write_fails_env base_prefs None)
                 empty_world)) = 1 \<and>
   files (snd (download_try write_fails_env (EASY_DW write_fails_env base_prefs None)
                 empty_world)) = [] \<and>
   active (snd (download_try write_fails_env (EASY_DW write_fails_env base_prefs None)
                  empty_world)) = {}"
  by code_simp

subsection \<open>A failed container normalization\<close>

text \<open>
  C7 at a failing input. The encoder exits with an error status and writes nothing.
  \<^verbatim>\<open>os.system\<close> returns that status and does not raise, so the \<^verbatim>\<open>except\<close> block that
  would restore the original never runs: the temporary file, which holds the only copy of
  the stream, is removed, and \<^verbatim>\<open>__convert_audio\<close> returns normally with no file at
  either path.
\<close>

theorem failed_normalization_loses_input:
  "map_of (files downloaded) song_path1 = Some (raw_file ''data'') \<and>
   projr_opt (fst (convert_audio_stage ffmpeg_fails_env
                     (EASY_DW ffmpeg_fails_env base_prefs None) 0 downloaded)) =
     Some (EASY_DW ffmpeg_fails_env base_prefs None) \<and>
   files (snd (convert_audio_stage ffmpeg_fails_env
                 (EASY_DW ffmpeg_fails_env base_prefs None) 0 downloaded)) = [] \<and>
   temp_filename song_path1 = (''out/Album'', ''Song.tmp'')"
  by code_simp

subsection \<open>A skipped item in a playlist\<close>

text \<open>
  C6 at a failing input. The only item of the playlist is already present. Its result is
  the skipped one and no \<^verbatim>\<open>error\<close> event is reported, but
  \<^verbatim>\<open>if not track.success\<close> does not look at \<^verbatim>\<open>was_skipped\<close>: the item is recorded in
  \<^verbatim>\<open>failed_track_indices\<close> and the \<^verbatim>\<open>done\<close> event counts one failed track.
\<close>

theorem skipped_item_counted_as_failed:
  "map_option (map was_skipped \<circ> pl_tracks)
     (projr_opt (fst (DW_PLAYLIST_dw quiet_env base_prefs (Some ''Mix'') [MetaDict song_md]
                        populated))) = Some [True] \<and>
   map_option failed_track_indices
     (projr_opt (fst (DW_PLAYLIST_dw quiet_env base_prefs (Some ''Mix'') [MetaDict song_md]
                        populated))) = Some [1] \<and>
   map_option failed_track_errors
     (projr_opt (fst (DW_PLAYLIST_dw quiet_env base_prefs (Some ''Mix'') [MetaDict song_md]
                        populated))) = Some [HadIssues 1] \<and>
   map ev_status (events (snd (DW_PLAYLIST_dw quiet_env base_prefs (Some ''Mix'')
                                 [MetaDict song_md] populated))) =
     [Initializing, Progress, Skipped, Done] \<and>
   ev_failed (last (events (snd (DW_PLAYLIST_dw quiet_env base_prefs (Some ''Mix'')
                                   [MetaDict song_md] populated)))) = Some 1"
  by code_simp

subsection \<open>A failing item in an album\<close>

text \<open>
  C1 at a failing input. The stream of the second of two items can never be acquired. In
  the album the terminal exception of \<^verbatim>\<open>download_try\<close> is not a
  \<^verbatim>\<open>TrackNotFound\<close>, so it leaves \<^verbatim>\<open>DW_ALBUM.dw\<close>: no album object is returned,
  although the first item's file is complete. The playlist loop, given the same two items,
  returns both entries, the second a placeholder without success and without path.
\<close>

theorem album_aborts_on_item_failure:
  "fst (DW_ALBUM_dw flaky_env three_prefs two_track_album ''out/Album.zip'' empty_world) =
     Inl (MaxRetriesReached 3 GLOBAL_MAX_RETRIES) \<and>
   map fst (files (snd (DW_ALBUM_dw flaky_env three_prefs two_track_album ''out/Album.zip''
                          empty_world))) = [song_path1] \<and>
   map_option (map (\<lambda>t. (ids t, success t, song_path t)) \<circ> pl_tracks)
     (projr_opt (fst (DW_PLAYLIST_dw flaky_env three_prefs (Some ''Mix'')
                        [MetaDict song_md, MetaDict other_md] empty_world))) =
     Some [(Some ''id1'', True, Some song_path1), (Some ''id2'', False, None)]"
  by code_simp

subsection \<open>Result lists of the batch aggregators\<close>




























end
